theory Spec2Isabelle
  imports Complex_Main
begin

section \<open>The job submission workflow of NewConversation.tsx\<close>

text \<open>
  The component \<open>NewConversation\<close> exists in the repository at two revisions of the same
  file. Both have the same control flow; they differ in the notification ids, in the
  constants of the polling counter and in a few texts. The embedding below follows the
  source statement by statement and takes the differing constants from a record
  \<open>flow\<close>: \<open>flow1\<close> is the first revision, \<open>flow2\<close> the second.

  Remote calls (\<open>multipartUpload\<close>, \<open>startMedicalScribeJob\<close>, \<open>getHealthScribeJob\<close>),
  the imported validator \<open>verifyJobParams\<close> and the hook \<open>useS3\<close> are not part of the
  component: what they answer is a parameter of the run, collected in the record \<open>world\<close>.
  Everything the workflow does is recorded, in order, as a list of \<open>event\<close>s: the calls
  of the state setters, the notifications, the remote calls, the sleeps and the
  navigation. The React state of the component is a record; the state a run leaves
  behind is the state it started in with the setter calls of its trace applied.
\<close>

subsection \<open>Data\<close>

text \<open>A browser \<open>File\<close>: its \<open>name\<close> and its \<open>type\<close> are all the workflow reads.\<close>

record File =
  name :: string
  contentType :: string

text \<open>\<open>Progress\<close> of lib-storage: every field is optional; byte counts are naturals.\<close>

record Progress =
  loaded :: "nat option"
  part :: "nat option"
  total :: "nat option"

text \<open>
  The argument of \<open>updateProgressBar\<close>. The source's field names \<open>id\<close>, \<open>type\<close>,
  \<open>value\<close>, \<open>description\<close>, \<open>additionalInfo\<close> carry the prefix \<open>n\<close> here; an absent
  optional field is \<open>None\<close>.
\<close>

record notification =
  nId :: string
  nType :: "string option"
  nValue :: int
  nDescription :: string
  nAdditionalInfo :: "string option"

record AudioDetails =
  maxSpeakers :: nat
  channel1 :: string

text \<open>The two shapes of \<open>audioParams\<close>; a channel definition is (ChannelId, ParticipantRole).\<close>

datatype audioParams =
  SpeakerSettings nat bool
  | ChannelDefinitions "(nat \<times> string) list" bool

record jobParams =
  MedicalScribeJobName :: string
  DataAccessRoleArn :: string
  OutputBucketName :: string
  MediaFileUri :: string
  audio :: audioParams

record verifyResult =
  verified :: bool
  message :: string

text \<open>
  A settled promise: it resolves with a value or rejects with an \<open>Error\<close>, of which the
  workflow reads the \<open>message\<close> only.
\<close>

datatype 'a promise = Resolves 'a | Rejects string

text \<open>
  The answer of \<open>startMedicalScribeJob\<close>, as far as the workflow looks at it:
  \<open>startJob?.data?.MedicalScribeJob?.MedicalScribeJobStatus\<close> (\<open>None\<close> when any link of
  the optional chain is undefined) and the text of \<open>JSON.stringify(startJob?.data)\<close>.
\<close>

record startResponse =
  MedicalScribeJobStatus :: "string option"
  dataJson :: string

record world =
  verifyJobParams :: "jobParams \<Rightarrow> verifyResult"
  uploadBucket :: string
  uploadKey :: string
  healthScribeServiceRole :: string
  uploadProgress :: "Progress list"
  uploadResult :: "unit promise"
  startJob :: "startResponse promise"
  getJob :: "string option promise list"

text \<open>The \<open>useState\<close> cells of the component, and the bucket that \<open>useS3\<close> hands out.\<close>

record component =
  isSubmitting :: bool
  formError :: string
  jobName :: string
  audioSelection :: string
  audioDetails :: AudioDetails
  filePath :: "File option"
  outputBucket :: string

datatype event =
  SetIsSubmitting bool
  | SetFormError string
  | ScrollTo nat nat
  | UpdateProgressBar notification
  | MultipartUpload string string File
  | StartMedicalScribeJob jobParams
  | GetHealthScribeJob string
  | Sleep nat
  | Navigate string

text \<open>
  How a run stands: \<open>Returned\<close> and \<open>Threw\<close> are the two ways \<open>submitJob\<close> ends;
  \<open>Pending\<close> is a run that is still inside the polling loop, waiting for the answer to
  the request it has just sent, after all the answers of \<open>getJob\<close> have been consumed.
\<close>

datatype error = TypeError | Error string

datatype outcome = Returned | Threw error | Pending

text \<open>
  How the polling loop stands: left by \<open>break\<close>, left by the exception of a rejected
  request (with its message), or waiting for an answer.
\<close>

datatype loopEnd = Break | Raise string | Await

record run =
  state :: component
  trace :: "event list"
  outcome :: outcome

record flow =
  callbackId :: "string \<Rightarrow> string"
  uploadErrorId :: "string \<Rightarrow> string"
  jobId :: "string \<Rightarrow> string"
  submittedDescription :: string
  progressStart :: int
  progressStep :: int
  progressCap :: int
  pollingDescription :: string
  successInfo :: string

definition flow1 :: flow where
  "flow1 = \<lparr> callbackId = (\<lambda>jn. ''New HealthScribe Job: '' @ jn),
             uploadErrorId = (\<lambda>jn. ''New Job: '' @ jn),
             jobId = (\<lambda>jn. ''New HealthScribe Job: '' @ jn),
             submittedDescription = ''Scribe job submitted'',
             progressStart = 10, progressStep = 5, progressCap = 90,
             pollingDescription = ''Scribe job submitted'',
             successInfo = ''Audio file successfully uploaded and submitted to transcription.'' \<rparr>"

definition flow2 :: flow where
  "flow2 = \<lparr> callbackId = (\<lambda>jn. ''Transcribing Audio''),
             uploadErrorId = (\<lambda>jn. ''Transcribing Audio''),
             jobId = (\<lambda>jn. ''Transcribing Audio''),
             submittedDescription = ''Scribe submitted'',
             progressStart = 5, progressStep = 3, progressCap = 95,
             pollingDescription = ''Scribe in progress'',
             successInfo = ''Audio file successfully transcribed.'' \<rparr>"

subsection \<open>Numbers and their text\<close>

text \<open>
  A JavaScript number is an IEEE 754 double. Its value is a rational, and every
  arithmetic operation gives the exact result rounded to the nearest double, ties going
  to the even significand. \<open>double\<close> is that rounding for the normal range
  (magnitudes from \<open>2 powi - 1022\<close> up to the largest double): for positive \<open>x\<close>,
  \<open>exponent x\<close> is the \<open>e\<close> with \<open>2 powi e \<le> x < 2 powi (e + 1)\<close>, and the result is
  the multiple of \<open>2 powi (e - 52)\<close> nearest to \<open>x\<close>, which has a significand of 53
  bits. Subnormal numbers, infinities and NaN are not modelled: byte counts are integers
  below \<open>2 ^ 53\<close>, which doubles hold exactly, and neither their quotients nor the
  products with 99 leave the normal range.
\<close>

fun bitLength :: "nat \<Rightarrow> nat" where
  "bitLength n = (if n = 0 then 0 else Suc (bitLength (n div 2)))"

declare bitLength.simps [simp del]

definition exponent :: "rat \<Rightarrow> int" where
  "exponent x = (if 1 \<le> x then int (bitLength (nat \<lfloor>x\<rfloor>)) - 1
                 else - int (bitLength (nat (\<lceil>1 / x\<rceil> - 1))))"

definition roundTiesToEven :: "rat \<Rightarrow> int" where
  "roundTiesToEven z =
     (if z - of_int \<lfloor>z\<rfloor> < 1 / 2 then \<lfloor>z\<rfloor>
      else if 1 / 2 < z - of_int \<lfloor>z\<rfloor> then \<lfloor>z\<rfloor> + 1
      else if even \<lfloor>z\<rfloor> then \<lfloor>z\<rfloor> else \<lfloor>z\<rfloor> + 1)"

definition nearest53 :: "rat \<Rightarrow> rat" where
  "nearest53 x = of_int (roundTiesToEven (x / 2 powi (exponent x - 52))) * 2 powi (exponent x - 52)"

definition double :: "rat \<Rightarrow> rat" where
  "double x = sgn x * nearest53 \<bar>x\<bar>"

text \<open>
  \<open>Math.round\<close> gives the integer nearest to its argument, halves going up; it is exact
  on every double.
\<close>

definition Math_round :: "rat \<Rightarrow> int" where
  "Math_round x = \<lfloor>x + 1 / 2\<rfloor>"

text \<open>\<open>x || d\<close> on an optional number: undefined and 0 are falsy.\<close>

definition orDefault :: "nat option \<Rightarrow> nat \<Rightarrow> nat" where
  "orDefault x d = (case x of None \<Rightarrow> d | Some v \<Rightarrow> if v = 0 then d else v)"

fun showNat :: "nat \<Rightarrow> string" where
  "showNat n = (if n < 10 then [char_of (48 + n)] else showNat (n div 10) @ [char_of (48 + n mod 10)])"

definition showInt :: "int \<Rightarrow> string" where
  "showInt i = (if i < 0 then ''-'' @ showNat (nat (- i)) else showNat (nat i))"

definition showOpt :: "nat option \<Rightarrow> string" where
  "showOpt x = (case x of None \<Rightarrow> ''undefined'' | Some v \<Rightarrow> showNat v)"

subsection \<open>The functions of the component\<close>

definition generateFilename :: "string \<Rightarrow> string" where
  "generateFilename uuidv4 = ''session-'' @ uuidv4"

text \<open>The state of a freshly mounted component: the initial values of its \<open>useState\<close> cells.\<close>

definition NewConversation :: "string \<Rightarrow> string \<Rightarrow> component" where
  "NewConversation uuidv4 bucket =
     \<lparr> isSubmitting = False, formError = '''', jobName = generateFilename uuidv4,
       audioSelection = ''speakerPartitioning'',
       audioDetails = \<lparr> maxSpeakers = 2, channel1 = ''CLINICIAN'' \<rparr>,
       filePath = None, outputBucket = bucket \<rparr>"

text \<open>
  The value of the progress callback,
  \<open>Math.round(((loaded || 1) / (total || 100)) * 99)\<close>: a division and a
  multiplication of doubles, each rounded.
\<close>

definition progressValue :: "Progress \<Rightarrow> int" where
  "progressValue p =
     Math_round
       (double (double (rat_of_nat (orDefault (loaded p) 1) / rat_of_nat (orDefault (total p) 100))
                * 99))"

definition s3UploadCallback :: "flow \<Rightarrow> string \<Rightarrow> Progress \<Rightarrow> notification" where
  "s3UploadCallback fl jn p =
     (let value = progressValue p;
          loadedMb = Math_round (double (double (rat_of_nat (orDefault (loaded p) 1) / 1024) / 1024));
          totalMb = Math_round (double (double (rat_of_nat (orDefault (total p) 1) / 1024) / 1024))
      in \<lparr> nId = callbackId fl jn, nType = None, nValue = value,
           nDescription = ''Uploaded part '' @ showOpt (part p) @ '', '' @ showInt loadedMb
                          @ ''MB / '' @ showInt totalMb @ ''MB'',
           nAdditionalInfo = None \<rparr>)"

definition buildAudioParams :: "component \<Rightarrow> audioParams" where
  "buildAudioParams c =
     (if audioSelection c = ''speakerPartitioning''
      then SpeakerSettings (maxSpeakers (audioDetails c)) True
      else ChannelDefinitions
             [(0, channel1 (audioDetails c)),
              (1, if channel1 (audioDetails c) = ''CLINICIAN'' then ''PATIENT'' else ''CLINICIAN'')]
             True)"

definition s3Key :: "world \<Rightarrow> File \<Rightarrow> string" where
  "s3Key w f = uploadKey w @ ''/'' @ name f"

definition buildJobParams :: "component \<Rightarrow> world \<Rightarrow> File \<Rightarrow> jobParams" where
  "buildJobParams c w f =
     \<lparr> MedicalScribeJobName = jobName c,
       DataAccessRoleArn = healthScribeServiceRole w,
       OutputBucketName = outputBucket c,
       MediaFileUri = ''s3://'' @ uploadBucket w @ ''/'' @ s3Key w f,
       audio = buildAudioParams c \<rparr>"

definition pollingNotification :: "flow \<Rightarrow> string \<Rightarrow> int \<Rightarrow> notification" where
  "pollingNotification fl jn progress =
     \<lparr> nId = jobId fl jn, nType = None, nValue = progress,
       nDescription = pollingDescription fl,
       nAdditionalInfo = Some ''Transcribing audio...'' \<rparr>"

definition successNotification :: "flow \<Rightarrow> string \<Rightarrow> notification" where
  "successNotification fl jn =
     \<lparr> nId = jobId fl jn, nType = Some ''success'', nValue = 100,
       nDescription = ''Scribe job submitted'',
       nAdditionalInfo = Some (successInfo fl) \<rparr>"

definition nextProgress :: "flow \<Rightarrow> int \<Rightarrow> int" where
  "nextProgress fl progress =
     (if progress + progressStep fl \<ge> progressCap fl then progressCap fl
      else progress + progressStep fl)"

text \<open>
  The \<open>while (true)\<close> loop, one equation per answer of \<open>getHealthScribeJob\<close>. The list
  holds the answers in the order the remote side gives them; the loop consumes one per
  iteration. A rejected request leaves the loop by the exception, \<open>COMPLETED\<close> by
  \<open>break\<close>; with no answer left the run is \<open>Pending\<close>.
\<close>

fun pollLoop :: "flow \<Rightarrow> string \<Rightarrow> int \<Rightarrow> string option promise list \<Rightarrow> event list \<times> loopEnd" where
  "pollLoop fl jn progress [] = ([Sleep 5000, GetHealthScribeJob jn], Await)"
| "pollLoop fl jn progress (Rejects m # rs) = ([Sleep 5000, GetHealthScribeJob jn], Raise m)"
| "pollLoop fl jn progress (Resolves jobstatus # rs) =
     (if jobstatus = Some ''COMPLETED''
      then ([Sleep 5000, GetHealthScribeJob jn,
             UpdateProgressBar (pollingNotification fl jn progress),
             UpdateProgressBar (successNotification fl jn),
             Sleep 500, Navigate (''/conversation/'' @ jn)], Break)
      else ([Sleep 5000, GetHealthScribeJob jn,
             UpdateProgressBar (pollingNotification fl jn progress)]
            @ fst (pollLoop fl jn (nextProgress fl progress) rs),
            snd (pollLoop fl jn (nextProgress fl progress) rs)))"

definition initialNotification :: notification where
  "initialNotification =
     \<lparr> nId = ''Transcribing Audio'', nType = None, nValue = 0,
       nDescription = ''Uploading Audio in progress...'', nAdditionalInfo = None \<rparr>"

definition uploadErrorNotification :: "flow \<Rightarrow> string \<Rightarrow> File \<Rightarrow> string \<Rightarrow> notification" where
  "uploadErrorNotification fl jn f m =
     \<lparr> nId = uploadErrorId fl jn, nType = Some ''error'', nValue = 0,
       nDescription = ''Uploading Audio failed'',
       nAdditionalInfo = Some (''Error uploading '' @ name f @ '': '' @ m) \<rparr>"

definition submittedNotification :: "flow \<Rightarrow> string \<Rightarrow> notification" where
  "submittedNotification fl jn =
     \<lparr> nId = jobId fl jn, nType = None, nValue = 20,
       nDescription = submittedDescription fl,
       nAdditionalInfo = Some ''Audio file successfully uploaded and submitted to transcription.'' \<rparr>"

definition unconfirmedNotification :: "flow \<Rightarrow> string \<Rightarrow> string \<Rightarrow> notification" where
  "unconfirmedNotification fl jn json =
     \<lparr> nId = jobId fl jn, nType = Some ''info'', nValue = 100,
       nDescription = ''Unable to confirm job submission'',
       nAdditionalInfo = Some (''Response from HealthScribe: '' @ json) \<rparr>"

definition submitErrorNotification :: "flow \<Rightarrow> string \<Rightarrow> string \<Rightarrow> notification" where
  "submitErrorNotification fl jn m =
     \<lparr> nId = jobId fl jn, nType = Some ''error'', nValue = 0,
       nDescription = ''Submitting job to HealthScribe failed'',
       nAdditionalInfo = Some (''Error submitting job to HealthScribe: '' @ m) \<rparr>"

text \<open>A string is truthy when it is defined and not empty.\<close>

definition truthy :: "string option \<Rightarrow> bool" where
  "truthy s = (case s of None \<Rightarrow> False | Some t \<Rightarrow> t \<noteq> '''')"

text \<open>
  The second \<open>try\<close> block with its \<open>catch\<close>: job creation, then the polling loop or the
  unconfirmed notification. An exception of the block (from job creation or from a
  poll) is answered by the error notification and \<open>setIsSubmitting(false)\<close>, and thrown
  again.
\<close>

definition createAndPoll :: "flow \<Rightarrow> string \<Rightarrow> jobParams \<Rightarrow> world \<Rightarrow> event list \<times> outcome" where
  "createAndPoll fl jn jp w =
     (case startJob w of
        Rejects m \<Rightarrow>
          ([StartMedicalScribeJob jp, UpdateProgressBar (submitErrorNotification fl jn m),
            SetIsSubmitting False],
           Threw (Error m))
      | Resolves r \<Rightarrow>
          if truthy (MedicalScribeJobStatus r)
          then (case pollLoop fl jn (progressStart fl) (getJob w) of
                  (evs, Raise m) \<Rightarrow>
                    ([StartMedicalScribeJob jp, UpdateProgressBar (submittedNotification fl jn)]
                     @ evs @ [UpdateProgressBar (submitErrorNotification fl jn m),
                              SetIsSubmitting False],
                     Threw (Error m))
                | (evs, Break) \<Rightarrow>
                    ([StartMedicalScribeJob jp, UpdateProgressBar (submittedNotification fl jn)]
                     @ evs, Returned)
                | (evs, Await) \<Rightarrow>
                    ([StartMedicalScribeJob jp, UpdateProgressBar (submittedNotification fl jn)]
                     @ evs, Pending))
          else ([StartMedicalScribeJob jp,
                 UpdateProgressBar (unconfirmedNotification fl jn (dataJson r))], Returned))"

text \<open>What a setter call does to the state; the other events leave it alone.\<close>

fun setter :: "event \<Rightarrow> component \<Rightarrow> component" where
  "setter (SetIsSubmitting b) c = c\<lparr>isSubmitting := b\<rparr>"
| "setter (SetFormError m) c = c\<lparr>formError := m\<rparr>"
| "setter e c = c"

fun applySetters :: "event list \<Rightarrow> component \<Rightarrow> component" where
  "applySetters [] c = c"
| "applySetters (e # evs) c = applySetters evs (setter e c)"

definition finish :: "component \<Rightarrow> event list \<Rightarrow> outcome \<Rightarrow> run" where
  "finish c evs out = \<lparr> state = applySetters evs c, trace = evs, outcome = out \<rparr>"

text \<open>The first \<open>try\<close> block up to the settling of the upload.\<close>

definition uploading :: "flow \<Rightarrow> component \<Rightarrow> world \<Rightarrow> File \<Rightarrow> event list" where
  "uploading fl c w f =
     [ScrollTo 0 0, UpdateProgressBar initialNotification,
      MultipartUpload (uploadBucket w) (s3Key w f) f]
     @ map (\<lambda>p. UpdateProgressBar (s3UploadCallback fl (jobName c) p)) (uploadProgress w)"

text \<open>
  \<open>submitJob\<close>. The function reads the state cells of the render it was created in
  (\<open>c\<close>) and writes through the setters. Without a selected file
  \<open>(filePath as File).name\<close> raises a TypeError outside of every \<open>try\<close>, after
  \<open>setIsSubmitting(true)\<close>; the submit control is disabled in that state. After the
  second \<open>try\<close> block has ended normally comes the last \<open>setIsSubmitting(false)\<close>.
\<close>

definition submitJob :: "flow \<Rightarrow> component \<Rightarrow> world \<Rightarrow> run" where
  "submitJob fl c w =
     (case filePath c of
        None \<Rightarrow> finish c [SetIsSubmitting True, SetFormError ''''] (Threw TypeError)
      | Some f \<Rightarrow>
          let jp = buildJobParams c w f;
              verifyParamResults = verifyJobParams w jp
          in if \<not> verified verifyParamResults
             then finish c [SetIsSubmitting True, SetFormError '''',
                            SetFormError (message verifyParamResults), SetIsSubmitting False]
                    Returned
             else
               (case uploadResult w of
                  Rejects m \<Rightarrow>
                    finish c ([SetIsSubmitting True, SetFormError ''''] @ uploading fl c w f
                              @ [UpdateProgressBar (uploadErrorNotification fl (jobName c) f m),
                                 SetIsSubmitting False])
                      (Threw (Error m))
                | Resolves u \<Rightarrow>
                    (case createAndPoll fl (jobName c) jp w of
                       (evs, Returned) \<Rightarrow>
                         finish c ([SetIsSubmitting True, SetFormError ''''] @ uploading fl c w f
                                   @ evs @ [SetIsSubmitting False])
                           Returned
                     | (evs, out) \<Rightarrow>
                         finish c ([SetIsSubmitting True, SetFormError ''''] @ uploading fl c w f @ evs)
                           out)))"

subsection \<open>Reading a trace\<close>

fun notifications :: "event list \<Rightarrow> notification list" where
  "notifications [] = []"
| "notifications (UpdateProgressBar n # evs) = n # notifications evs"
| "notifications (e # evs) = notifications evs"

fun isNavigate :: "event \<Rightarrow> bool" where
  "isNavigate (Navigate p) = True"
| "isNavigate e = False"

fun isStartMedicalScribeJob :: "event \<Rightarrow> bool" where
  "isStartMedicalScribeJob (StartMedicalScribeJob jp) = True"
| "isStartMedicalScribeJob e = False"

fun isGetHealthScribeJob :: "event \<Rightarrow> bool" where
  "isGetHealthScribeJob (GetHealthScribeJob jn) = True"
| "isGetHealthScribeJob e = False"

text \<open>A notification of the given \<open>type\<close> (\<open>error\<close>, \<open>success\<close>, \<open>info\<close>).\<close>

definition ofType :: "string \<Rightarrow> notification \<Rightarrow> bool" where
  "ofType t n = (nType n = Some t)"

text \<open>
  The notification of a polling iteration: it has no \<open>type\<close> and its \<open>additionalInfo\<close>
  is the text of the loop.
\<close>

definition isPolling :: "notification \<Rightarrow> bool" where
  "isPolling n = (nType n = None \<and> nAdditionalInfo n = Some ''Transcribing audio...'')"

text \<open>The job names that the run has sent to \<open>startMedicalScribeJob\<close>.\<close>

fun startedJobNames :: "event list \<Rightarrow> string list" where
  "startedJobNames [] = []"
| "startedJobNames (StartMedicalScribeJob jp # evs) = MedicalScribeJobName jp # startedJobNames evs"
| "startedJobNames (e # evs) = startedJobNames evs"

subsection \<open>Concrete submissions\<close>

text \<open>
  A mounted component whose generated name is \<open>session-abc\<close>, with a selected file, and
  the surroundings of a submission that goes well: two parts are uploaded, the job is
  created with status \<open>SUBMITTED\<close>, the first poll answers \<open>IN_PROGRESS\<close> and the
  second \<open>COMPLETED\<close>. The other worlds differ from it in one answer.
\<close>

definition exampleFile :: File where
  "exampleFile = \<lparr> name = ''visit.wav'', contentType = ''audio/wav'' \<rparr>"

definition exampleComponent :: component where
  "exampleComponent = (NewConversation ''abc'' ''out-bucket'')\<lparr>filePath := Some exampleFile\<rparr>"

definition channelComponent :: component where
  "channelComponent = exampleComponent\<lparr>audioSelection := ''channelIdentification''\<rparr>"

definition submittedResponse :: startResponse where
  "submittedResponse = \<lparr> MedicalScribeJobStatus = Some ''SUBMITTED'', dataJson = ''{}'' \<rparr>"

definition unrecognisedResponse :: startResponse where
  "unrecognisedResponse = \<lparr> MedicalScribeJobStatus = None, dataJson = ''{}'' \<rparr>"

definition exampleWorld :: world where
  "exampleWorld =
     \<lparr> verifyJobParams = (\<lambda>jp. \<lparr> verified = True, message = '''' \<rparr>),
       uploadBucket = ''in-bucket'', uploadKey = ''uploads/1'',
       healthScribeServiceRole = ''arn:aws:iam::1:role/scribe'',
       uploadProgress = [\<lparr> loaded = Some 5242880, part = Some 1, total = Some 10485760 \<rparr>,
                         \<lparr> loaded = Some 10485760, part = Some 2, total = Some 10485760 \<rparr>],
       uploadResult = Resolves (),
       startJob = Resolves submittedResponse,
       getJob = [Resolves (Some ''IN_PROGRESS''), Resolves (Some ''COMPLETED'')] \<rparr>"

definition uploadFails :: world where
  "uploadFails =
     exampleWorld\<lparr>uploadProgress := [\<lparr> loaded = Some 5242880, part = Some 1, total = Some 10485760 \<rparr>],
                   uploadResult := Rejects ''Network Error''\<rparr>"

definition creationFails :: world where
  "creationFails = exampleWorld\<lparr>startJob := Rejects ''Network Error''\<rparr>"

definition unconfirmed :: world where
  "unconfirmed = exampleWorld\<lparr>startJob := Resolves unrecognisedResponse\<rparr>"

text \<open>A remote job that has failed for good: every poll answers \<open>FAILED\<close>.\<close>

definition stillFailed :: "nat \<Rightarrow> string option promise" where
  "stillFailed i = Resolves (Some ''FAILED'')"

text \<open>A remote job that is still running when the only poll so far is answered.\<close>

definition stillRunning :: world where
  "stillRunning = exampleWorld\<lparr>getJob := [Resolves (Some ''IN_PROGRESS'')]\<rparr>"

text \<open>The freshly mounted component, before any file is selected.\<close>

definition mountedComponent :: component where
  "mountedComponent = NewConversation ''abc'' ''out-bucket''"


section \<open>Auxiliary facts\<close>

subsection \<open>Rounding to doubles\<close>

























lemma progressValue_part:
  "progressValue \<lparr> loaded = x, part = y, total = z \<rparr>
     = progressValue \<lparr> loaded = x, part = None, total = z \<rparr>"
  by (simp add: progressValue_def)

lemma progressValue_steps:
  assumes "orDefault (loaded p) 1 = l" and "orDefault (total p) 100 = t"
    and "rat_of_nat l / rat_of_nat t = a" and "double a = b" and "double (b * 99) = c"
    and "Math_round c = v"
  shows "progressValue p = v"
  using assms by (simp add: progressValue_def)

lemma example_progress_values:
  "progressValue \<lparr> loaded = Some 5242880, part = y, total = Some 10485760 \<rparr> = 50"
  "progressValue \<lparr> loaded = Some 10485760, part = y, total = Some 10485760 \<rparr> = 99"
proof -
  have half: "double (1 / 2) = 1 / 2" and "double (1 / 2 * 99) = 99 / 2"
    and "Math_round (99 / 2) = 50"
    by code_simp+
  then show "progressValue \<lparr> loaded = Some 5242880, part = y, total = Some 10485760 \<rparr> = 50"
    by (intro progressValue_steps [where l = 5242880 and t = 10485760 and a = "1 / 2"
          and b = "1 / 2" and c = "99 / 2"]) (simp_all add: orDefault_def)
  have one: "double 1 = 1" and "double (1 * 99) = 99" and "Math_round 99 = 99"
    by code_simp+
  then show "progressValue \<lparr> loaded = Some 10485760, part = y, total = Some 10485760 \<rparr> = 99"
    by (intro progressValue_steps [where l = 10485760 and t = 10485760 and a = 1
          and b = 1 and c = 99]) (simp_all add: orDefault_def)
qed

lemma s3UploadCallback_sel:
  "nId (s3UploadCallback fl jn p) = callbackId fl jn"
  "nValue (s3UploadCallback fl jn p) = progressValue p"
  "nType (s3UploadCallback fl jn p) = None"
  by (simp_all add: s3UploadCallback_def Let_def)

subsection \<open>Kinds of notifications\<close>

lemma ofType_simps:
  "\<not> ofType t (pollingNotification fl jn p)"
  "ofType t (successNotification fl jn) = (t = ''success'')"
  "\<not> ofType t (submittedNotification fl jn)"
  "ofType t (unconfirmedNotification fl jn j) = (t = ''info'')"
  "\<not> ofType t initialNotification"
  "\<not> ofType t (s3UploadCallback fl jn pr)"
  "ofType t (uploadErrorNotification fl jn f m) = (t = ''error'')"
  "ofType t (submitErrorNotification fl jn m) = (t = ''error'')"
  by (auto simp add: ofType_def pollingNotification_def successNotification_def
      submittedNotification_def unconfirmedNotification_def initialNotification_def
      s3UploadCallback_def uploadErrorNotification_def submitErrorNotification_def Let_def)

lemma isPolling_simps:
  "isPolling (pollingNotification fl jn p)"
  "\<not> isPolling (successNotification fl jn)"
  "\<not> isPolling (submittedNotification fl jn)"
  "\<not> isPolling initialNotification"
  "\<not> isPolling (s3UploadCallback fl jn pr)"
  by (simp_all add: isPolling_def pollingNotification_def successNotification_def
      submittedNotification_def initialNotification_def s3UploadCallback_def Let_def)

subsection \<open>Traces\<close>

lemma notifications_append: "notifications (xs @ ys) = notifications xs @ notifications ys"
  by (induction xs rule: notifications.induct) simp_all

lemma notifications_map_Update: "notifications (map (\<lambda>p. UpdateProgressBar (g p)) ps) = map g ps"
  by (induction ps) simp_all

lemma startedJobNames_append: "startedJobNames (xs @ ys) = startedJobNames xs @ startedJobNames ys"
  by (induction xs rule: startedJobNames.induct) simp_all

lemma applySetters_append: "applySetters (xs @ ys) c = applySetters ys (applySetters xs c)"
  by (induction xs arbitrary: c) simp_all

lemma applySetters_map_Update: "applySetters (map (\<lambda>p. UpdateProgressBar (g p)) ps) c = c"
  by (induction ps) simp_all

lemma jobName_setter: "jobName (setter e c) = jobName c"
  by (cases e) simp_all

lemma jobName_applySetters: "jobName (applySetters evs c) = jobName c"
  by (induction evs arbitrary: c) (simp_all add: jobName_setter)

lemma finish_sel [simp]:
  "state (finish c evs out) = applySetters evs c"
  "trace (finish c evs out) = evs"
  "outcome (finish c evs out) = out"
  by (simp_all add: finish_def)

subsection \<open>The upload phase\<close>

lemma uploading_no_nav: "filter isNavigate (uploading fl c w f) = []"
  by (simp add: uploading_def filter_map comp_def)

lemma uploading_no_get: "filter isGetHealthScribeJob (uploading fl c w f) = []"
  by (simp add: uploading_def filter_map comp_def)

lemma uploading_no_start: "filter isStartMedicalScribeJob (uploading fl c w f) = []"
  by (simp add: uploading_def filter_map comp_def)

lemma uploading_notifications:
  "notifications (uploading fl c w f)
   = initialNotification # map (s3UploadCallback fl (jobName c)) (uploadProgress w)"
  by (simp add: uploading_def notifications_append notifications_map_Update)

lemma uploading_no_typed:
  "filter (ofType t) (notifications (uploading fl c w f)) = []"
  by (simp add: uploading_notifications ofType_simps filter_map comp_def)

lemma uploading_no_polling: "filter isPolling (notifications (uploading fl c w f)) = []"
  by (simp add: uploading_notifications isPolling_simps filter_map comp_def)

lemma startedJobNames_uploading: "startedJobNames (uploading fl c w f) = []"
proof -
  have "startedJobNames (map (\<lambda>p. UpdateProgressBar (g p)) ps) = []"
    for g :: "Progress \<Rightarrow> notification" and ps
    by (induction ps) simp_all
  then show ?thesis by (simp add: uploading_def startedJobNames_append)
qed

lemma applySetters_uploading: "applySetters (uploading fl c' w f) c = c"
  by (simp add: uploading_def applySetters_append applySetters_map_Update)

lemma uploading_no_setter: "SetIsSubmitting b \<notin> set (uploading fl c' w f)"
  by (auto simp: uploading_def)

lemma buildJobParams_getJob [simp]:
  "buildJobParams c (w\<lparr>getJob := rs\<rparr>) f = buildJobParams c w f"
  by (simp add: buildJobParams_def s3Key_def)

lemma buildJobParams_name: "MedicalScribeJobName (buildJobParams c w f) = jobName c"
  by (simp add: buildJobParams_def)

subsection \<open>The polling loop\<close>

text \<open>
  As long as no answer is \<open>COMPLETED\<close> and no request is rejected, the loop waits: it
  has sent one request more than it has answers, it has not navigated and it has posted
  no error.
\<close>

lemma pollLoop_waits:
  assumes "\<forall>x \<in> set rs. \<exists>s. x = Resolves s \<and> s \<noteq> Some ''COMPLETED''"
  shows "snd (pollLoop fl jn p rs) = Await
         \<and> filter isNavigate (fst (pollLoop fl jn p rs)) = []
         \<and> filter (ofType ''error'') (notifications (fst (pollLoop fl jn p rs))) = []
         \<and> length (filter isGetHealthScribeJob (fst (pollLoop fl jn p rs))) = Suc (length rs)"
  using assms
proof (induction rs arbitrary: p)
  case Nil
  show ?case by simp
next
  case (Cons r rs)
  then obtain s where r: "r = Resolves s" and s: "s \<noteq> Some ''COMPLETED''" by auto
  from Cons have ih: "snd (pollLoop fl jn (nextProgress fl p) rs) = Await
         \<and> filter isNavigate (fst (pollLoop fl jn (nextProgress fl p) rs)) = []
         \<and> filter (ofType ''error'') (notifications (fst (pollLoop fl jn (nextProgress fl p) rs))) = []
         \<and> length (filter isGetHealthScribeJob (fst (pollLoop fl jn (nextProgress fl p) rs)))
             = Suc (length rs)"
    by simp
  show ?case using ih by (simp add: r s ofType_simps)
qed

text \<open>The loop is left by \<open>break\<close> only after an answer \<open>COMPLETED\<close>.\<close>

lemma pollLoop_break_completed:
  "snd (pollLoop fl jn p rs) = Break \<Longrightarrow> Resolves (Some ''COMPLETED'') \<in> set rs"
  by (induction fl jn p rs rule: pollLoop.induct) (simp_all split: if_splits)

lemma pollLoop_ids:
  "n \<in> set (notifications (fst (pollLoop fl jn p rs))) \<Longrightarrow> nId n = jobId fl jn"
proof (induction fl jn p rs rule: pollLoop.induct)
  case (1 fl jn progress)
  then show ?case by simp
next
  case (2 fl jn progress m rs)
  then show ?case by simp
next
  case (3 fl jn progress jobstatus rs)
  then show ?case
    by (auto simp: pollingNotification_def successNotification_def split: if_splits)
qed

lemma startedJobNames_pollLoop: "startedJobNames (fst (pollLoop fl jn p rs)) = []"
  by (induction fl jn p rs rule: pollLoop.induct) simp_all

lemma applySetters_pollLoop: "applySetters (fst (pollLoop fl jn p rs)) c = c"
  by (induction fl jn p rs rule: pollLoop.induct) (simp_all add: applySetters_append)

lemma pollLoop_no_setter: "SetIsSubmitting b \<notin> set (fst (pollLoop fl jn p rs))"
  by (induction fl jn p rs rule: pollLoop.induct) simp_all

lemma pollLoop_two_polls:
  "pollLoop fl jn p [Resolves (Some ''IN_PROGRESS''), Resolves (Some ''COMPLETED'')]
     = ([Sleep 5000, GetHealthScribeJob jn, UpdateProgressBar (pollingNotification fl jn p),
         Sleep 5000, GetHealthScribeJob jn,
         UpdateProgressBar (pollingNotification fl jn (nextProgress fl p)),
         UpdateProgressBar (successNotification fl jn),
         Sleep 500, Navigate (''/conversation/'' @ jn)], Break)"
  by simp

subsection \<open>Job creation and the way through \<open>submitJob\<close>\<close>

lemma createAndPoll_rejected:
  assumes "startJob w = Rejects m"
  shows "createAndPoll fl jn jp w =
           ([StartMedicalScribeJob jp, UpdateProgressBar (submitErrorNotification fl jn m),
             SetIsSubmitting False],
            Threw (Error m))"
  using assms by (simp add: createAndPoll_def)

lemma createAndPoll_unconfirmed:
  assumes "startJob w = Resolves r" and "\<not> truthy (MedicalScribeJobStatus r)"
  shows "createAndPoll fl jn jp w =
           ([StartMedicalScribeJob jp, UpdateProgressBar (unconfirmedNotification fl jn (dataJson r))],
            Returned)"
  using assms by (simp add: createAndPoll_def)

lemma createAndPoll_polling:
  assumes "startJob w = Resolves r" and "truthy (MedicalScribeJobStatus r)"
  shows "createAndPoll fl jn jp w =
           (case snd (pollLoop fl jn (progressStart fl) (getJob w)) of
              Raise m \<Rightarrow>
                ([StartMedicalScribeJob jp, UpdateProgressBar (submittedNotification fl jn)]
                 @ fst (pollLoop fl jn (progressStart fl) (getJob w))
                 @ [UpdateProgressBar (submitErrorNotification fl jn m), SetIsSubmitting False],
                 Threw (Error m))
            | Break \<Rightarrow>
                ([StartMedicalScribeJob jp, UpdateProgressBar (submittedNotification fl jn)]
                 @ fst (pollLoop fl jn (progressStart fl) (getJob w)), Returned)
            | Await \<Rightarrow>
                ([StartMedicalScribeJob jp, UpdateProgressBar (submittedNotification fl jn)]
                 @ fst (pollLoop fl jn (progressStart fl) (getJob w)), Pending))"
  using assms by (simp add: createAndPoll_def split: prod.splits loopEnd.splits)

lemma createAndPoll_ids:
  assumes "n \<in> set (notifications (fst (createAndPoll fl jn jp w)))"
  shows "nId n = jobId fl jn"
proof (cases "startJob w")
  case (Rejects m)
  with assms show ?thesis
    by (simp add: createAndPoll_def submitErrorNotification_def)
next
  case (Resolves r)
  show ?thesis
  proof (cases "truthy (MedicalScribeJobStatus r)")
    case False
    with assms show ?thesis
      by (simp add: createAndPoll_unconfirmed [OF Resolves] unconfirmedNotification_def)
  next
    case True
    from assms show ?thesis
      by (cases "snd (pollLoop fl jn (progressStart fl) (getJob w))")
        (auto simp: createAndPoll_polling [OF Resolves True] notifications_append
          submittedNotification_def submitErrorNotification_def dest: pollLoop_ids)
  qed
qed

lemma startedJobNames_createAndPoll:
  "startedJobNames (fst (createAndPoll fl jn jp w)) = [MedicalScribeJobName jp]"
proof (cases "startJob w")
  case (Rejects m)
  then show ?thesis by (simp add: createAndPoll_def)
next
  case (Resolves r)
  show ?thesis
  proof (cases "truthy (MedicalScribeJobStatus r)")
    case False
    then show ?thesis by (simp add: createAndPoll_unconfirmed [OF Resolves])
  next
    case True
    show ?thesis
      by (cases "snd (pollLoop fl jn (progressStart fl) (getJob w))")
        (simp_all add: createAndPoll_polling [OF Resolves True] startedJobNames_append
          startedJobNames_pollLoop)
  qed
qed

text \<open>
  The setter calls of the second \<open>try\<close> block: \<open>setIsSubmitting(false)\<close> when it throws,
  none otherwise.
\<close>

lemma createAndPoll_setters:
  "applySetters (fst (createAndPoll fl jn jp w)) c
     = (case snd (createAndPoll fl jn jp w) of
          Threw e \<Rightarrow> c\<lparr>isSubmitting := False\<rparr> | Returned \<Rightarrow> c | Pending \<Rightarrow> c)"
proof (cases "startJob w")
  case (Rejects m)
  then show ?thesis by (simp add: createAndPoll_def)
next
  case (Resolves r)
  show ?thesis
  proof (cases "truthy (MedicalScribeJobStatus r)")
    case False
    then show ?thesis by (simp add: createAndPoll_unconfirmed [OF Resolves])
  next
    case True
    show ?thesis
      by (cases "snd (pollLoop fl jn (progressStart fl) (getJob w))")
        (simp_all add: createAndPoll_polling [OF Resolves True] applySetters_append
          applySetters_pollLoop)
  qed
qed

lemma createAndPoll_no_TypeError: "snd (createAndPoll fl jn jp w) \<noteq> Threw TypeError"
  by (simp add: createAndPoll_def split: promise.splits prod.splits loopEnd.splits)

text \<open>
  The reset inside the second \<open>try\<close> block: when the block throws, its last event is
  \<open>setIsSubmitting(false)\<close>; while the loop waits, no setter has been called.
\<close>

lemma createAndPoll_threw_resets:
  assumes "snd (createAndPoll fl jn jp w) = Threw e"
  shows "\<exists>evs. fst (createAndPoll fl jn jp w) = evs @ [SetIsSubmitting False]"
proof (cases "startJob w")
  case (Rejects m)
  have "fst (createAndPoll fl jn jp w)
      = [StartMedicalScribeJob jp, UpdateProgressBar (submitErrorNotification fl jn m)]
        @ [SetIsSubmitting False]"
    by (simp add: createAndPoll_rejected [OF Rejects])
  then show ?thesis by (rule exI)
next
  case (Resolves r)
  show ?thesis
  proof (cases "truthy (MedicalScribeJobStatus r)")
    case False
    with assms show ?thesis by (simp add: createAndPoll_unconfirmed [OF Resolves])
  next
    case True
    show ?thesis
    proof (cases "snd (pollLoop fl jn (progressStart fl) (getJob w))")
      case Break
      with assms show ?thesis by (simp add: createAndPoll_polling [OF Resolves True])
    next
      case (Raise m)
      have "fst (createAndPoll fl jn jp w)
          = ([StartMedicalScribeJob jp, UpdateProgressBar (submittedNotification fl jn)]
             @ fst (pollLoop fl jn (progressStart fl) (getJob w))
             @ [UpdateProgressBar (submitErrorNotification fl jn m)])
            @ [SetIsSubmitting False]"
        by (simp add: createAndPoll_polling [OF Resolves True] Raise)
      then show ?thesis by (rule exI)
    next
      case Await
      with assms show ?thesis by (simp add: createAndPoll_polling [OF Resolves True])
    qed
  qed
qed

lemma createAndPoll_pending_no_setter:
  assumes "snd (createAndPoll fl jn jp w) = Pending"
  shows "SetIsSubmitting b \<notin> set (fst (createAndPoll fl jn jp w))"
proof (cases "startJob w")
  case (Rejects m)
  with assms show ?thesis by (simp add: createAndPoll_rejected)
next
  case (Resolves r)
  show ?thesis
  proof (cases "truthy (MedicalScribeJobStatus r)")
    case False
    with assms show ?thesis by (simp add: createAndPoll_unconfirmed [OF Resolves])
  next
    case True
    from assms show ?thesis
      by (cases "snd (pollLoop fl jn (progressStart fl) (getJob w))")
        (simp_all add: createAndPoll_polling [OF Resolves True] pollLoop_no_setter)
  qed
qed

lemma submitJob_uploaded:
  assumes "filePath c = Some f"
    and "verified (verifyJobParams w (buildJobParams c w f))"
    and "uploadResult w = Resolves u"
  shows "submitJob fl c w =
           finish c
             ([SetIsSubmitting True, SetFormError ''''] @ uploading fl c w f
              @ fst (createAndPoll fl (jobName c) (buildJobParams c w f) w)
              @ (if snd (createAndPoll fl (jobName c) (buildJobParams c w f) w) = Returned
                 then [SetIsSubmitting False] else []))
             (snd (createAndPoll fl (jobName c) (buildJobParams c w f) w))"
  using assms by (simp add: submitJob_def Let_def split: prod.splits outcome.splits)

lemma submitJob_upload_rejected:
  assumes "filePath c = Some f"
    and "verified (verifyJobParams w (buildJobParams c w f))"
    and "uploadResult w = Rejects m"
  shows "submitJob fl c w =
           finish c
             ([SetIsSubmitting True, SetFormError ''''] @ uploading fl c w f
              @ [UpdateProgressBar (uploadErrorNotification fl (jobName c) f m), SetIsSubmitting False])
             (Threw (Error m))"
  using assms by (simp add: submitJob_def Let_def)

lemma startedJobNames_submitJob:
  "set (startedJobNames (trace (submitJob fl c w))) \<subseteq> {jobName c}"
proof (cases "filePath c")
  case None
  then show ?thesis by (simp add: submitJob_def)
next
  case (Some f)
  show ?thesis
  proof (cases "verified (verifyJobParams w (buildJobParams c w f))")
    case False
    with Some show ?thesis by (simp add: submitJob_def Let_def)
  next
    case True
    show ?thesis
    proof (cases "uploadResult w")
      case (Rejects m)
      show ?thesis
        by (simp add: submitJob_upload_rejected [OF Some True Rejects] startedJobNames_append
            startedJobNames_uploading)
    next
      case (Resolves u)
      show ?thesis
        by (simp add: submitJob_uploaded [OF Some True Resolves] startedJobNames_append
            startedJobNames_uploading startedJobNames_createAndPoll buildJobParams_name)
    qed
  qed
qed

lemma jobName_submitJob: "jobName (state (submitJob fl c w)) = jobName c"
  by (simp add: submitJob_def Let_def jobName_applySetters
      split: option.splits promise.splits prod.splits outcome.splits)

text \<open>
  Where a notification of a run comes from: it is the initial one, the one of the
  failed upload, one of the upload callback, or one of the job phase.
\<close>

lemma submitJob_notification_cases:
  assumes "n \<in> set (notifications (trace (submitJob fl c w)))"
  shows "n = initialNotification
       \<or> (\<exists>f m. n = uploadErrorNotification fl (jobName c) f m)
       \<or> nId n = callbackId fl (jobName c)
       \<or> nId n = jobId fl (jobName c)"
proof (cases "filePath c")
  case None
  with assms show ?thesis by (simp add: submitJob_def)
next
  case (Some f)
  show ?thesis
  proof (cases "verified (verifyJobParams w (buildJobParams c w f))")
    case False
    with assms Some show ?thesis by (simp add: submitJob_def Let_def)
  next
    case True
    show ?thesis
    proof (cases "uploadResult w")
      case (Rejects m)
      from assms show ?thesis
        by (auto simp: submitJob_upload_rejected [OF Some True Rejects] notifications_append
            uploading_notifications s3UploadCallback_sel)
    next
      case (Resolves u)
      from assms show ?thesis
        by (auto simp: submitJob_uploaded [OF Some True Resolves] notifications_append
            uploading_notifications s3UploadCallback_sel dest: createAndPoll_ids
            split: if_splits)
    qed
  qed
qed

text \<open>The run of \<open>submitJob\<close> while the polling loop waits, for a finite list of answers.\<close>

lemma polling_waits:
  assumes "filePath c = Some f"
    and "verified (verifyJobParams w (buildJobParams c w f))"
    and "uploadResult w = Resolves u"
    and "startJob w = Resolves r"
    and "truthy (MedicalScribeJobStatus r)"
    and "\<forall>x \<in> set (getJob w). \<exists>s. x = Resolves s \<and> s \<noteq> Some ''COMPLETED''"
  shows "outcome (submitJob fl c w) = Pending"
    and "isSubmitting (state (submitJob fl c w))"
    and "filter isNavigate (trace (submitJob fl c w)) = []"
    and "filter (ofType ''error'') (notifications (trace (submitJob fl c w))) = []"
    and "length (filter isGetHealthScribeJob (trace (submitJob fl c w))) = Suc (length (getJob w))"
proof -
  let ?jp = "buildJobParams c w f"
  let ?loop = "pollLoop fl (jobName c) (progressStart fl) (getJob w)"
  note loop = pollLoop_waits [OF assms(6), of fl "jobName c" "progressStart fl"]
  have cp: "createAndPoll fl (jobName c) ?jp w =
      ([StartMedicalScribeJob ?jp, UpdateProgressBar (submittedNotification fl (jobName c))] @ fst ?loop,
       Pending)"
    using loop by (simp add: createAndPoll_polling [OF assms(4,5)])
  have tr: "trace (submitJob fl c w) = [SetIsSubmitting True, SetFormError ''''] @ uploading fl c w f
       @ [StartMedicalScribeJob ?jp, UpdateProgressBar (submittedNotification fl (jobName c))] @ fst ?loop"
    by (simp add: submitJob_uploaded [OF assms(1-3)] cp)
  show "outcome (submitJob fl c w) = Pending"
    by (simp add: submitJob_uploaded [OF assms(1-3)] cp)
  show "isSubmitting (state (submitJob fl c w))"
    by (simp add: submitJob_uploaded [OF assms(1-3)] cp applySetters_append applySetters_uploading
        applySetters_pollLoop)
  show "filter isNavigate (trace (submitJob fl c w)) = []"
    using loop by (simp add: tr uploading_no_nav)
  show "filter (ofType ''error'') (notifications (trace (submitJob fl c w))) = []"
    using loop by (simp add: tr notifications_append uploading_no_typed ofType_simps)
  show "length (filter isGetHealthScribeJob (trace (submitJob fl c w))) = Suc (length (getJob w))"
    using loop by (simp add: tr uploading_no_get)
qed

subsection \<open>The concrete submissions\<close>

lemmas example_defs =
  exampleFile_def exampleComponent_def exampleWorld_def uploadFails_def creationFails_def
  unconfirmed_def NewConversation_def generateFilename_def

lemmas run_defs =
  submitJob_def createAndPoll_def uploading_def finish_def buildJobParams_def buildAudioParams_def
  s3Key_def truthy_def nextProgress_def Let_def

lemmas notification_defs =
  initialNotification_def uploadErrorNotification_def submittedNotification_def
  pollingNotification_def successNotification_def unconfirmedNotification_def
  submitErrorNotification_def

lemma example_facts:
  "jobName exampleComponent = ''session-abc''"
  "filePath exampleComponent = Some exampleFile"
  "verified (verifyJobParams exampleWorld jp)"
  "uploadResult exampleWorld = Resolves ()"
  "startJob exampleWorld = Resolves submittedResponse"
  "MedicalScribeJobStatus submittedResponse = Some ''SUBMITTED''"
  "truthy (MedicalScribeJobStatus submittedResponse)"
  "getJob exampleWorld = [Resolves (Some ''IN_PROGRESS''), Resolves (Some ''COMPLETED'')]"
  by (simp_all add: example_defs submittedResponse_def truthy_def)

lemma uploadFails_facts:
  "verified (verifyJobParams uploadFails jp)"
  "uploadResult uploadFails = Rejects ''Network Error''"
  by (simp_all add: example_defs)

lemma creationFails_facts:
  "verified (verifyJobParams creationFails jp)"
  "uploadResult creationFails = Resolves ()"
  "startJob creationFails = Rejects ''Network Error''"
  by (simp_all add: example_defs)

lemma unconfirmed_facts:
  "verified (verifyJobParams unconfirmed jp)"
  "uploadResult unconfirmed = Resolves ()"
  "startJob unconfirmed = Resolves unrecognisedResponse"
  "\<not> truthy (MedicalScribeJobStatus unrecognisedResponse)"
  by (simp_all add: example_defs unrecognisedResponse_def truthy_def)

lemma example_run:
  "outcome (submitJob fl exampleComponent exampleWorld) = Returned"
  "trace (submitJob fl exampleComponent exampleWorld)
     = [SetIsSubmitting True, SetFormError '''']
       @ uploading fl exampleComponent exampleWorld exampleFile
       @ [StartMedicalScribeJob (buildJobParams exampleComponent exampleWorld exampleFile),
          UpdateProgressBar (submittedNotification fl ''session-abc''),
          Sleep 5000, GetHealthScribeJob ''session-abc'',
          UpdateProgressBar (pollingNotification fl ''session-abc'' (progressStart fl)),
          Sleep 5000, GetHealthScribeJob ''session-abc'',
          UpdateProgressBar (pollingNotification fl ''session-abc'' (nextProgress fl (progressStart fl))),
          UpdateProgressBar (successNotification fl ''session-abc''),
          Sleep 500, Navigate ''/conversation/session-abc'', SetIsSubmitting False]"
  by (simp_all add: submitJob_uploaded [OF example_facts(2,3,4)]
      createAndPoll_polling [OF example_facts(5,7)] example_facts(1,8) pollLoop_two_polls)

lemma stillRunning_facts:
  "verified (verifyJobParams stillRunning jp)"
  "uploadResult stillRunning = Resolves ()"
  "startJob stillRunning = Resolves submittedResponse"
  "getJob stillRunning = [Resolves (Some ''IN_PROGRESS'')]"
  by (simp_all add: example_defs stillRunning_def)

lemma stillRunning_run: "outcome (submitJob fl exampleComponent stillRunning) = Pending"
  by (simp add: submitJob_uploaded [OF example_facts(2) stillRunning_facts(1,2)]
      createAndPoll_polling [OF stillRunning_facts(3) example_facts(7)] stillRunning_facts(4))

lemma mounted_run: "outcome (submitJob fl mountedComponent w) = Threw TypeError"
  by (simp add: submitJob_def mountedComponent_def NewConversation_def)

lemma creationFails_run:
  "outcome (submitJob fl exampleComponent creationFails) = Threw (Error ''Network Error'')"
  "filePath (state (submitJob fl exampleComponent creationFails)) = Some exampleFile"
  by (simp_all add: submitJob_uploaded [OF example_facts(2) creationFails_facts(1,2)]
      createAndPoll_rejected [OF creationFails_facts(3)] applySetters_append
      applySetters_uploading example_facts(2))

section \<open>The claims\<close>

text \<open>
  C1. In the scenario with job name \<open>session-abc\<close>, a successful upload, a job created
  with status \<open>SUBMITTED\<close>, a first poll answering \<open>IN_PROGRESS\<close> and a second one
  answering \<open>COMPLETED\<close>, \<open>submitJob\<close> returns, and the trace after the upload phase is:
  the creation request and its notification, two polling notifications, the success
  notification, the short sleep, the navigation to \<open>/conversation/session-abc\<close> and
  the reset of \<open>isSubmitting\<close>.
  The polling notifications are exactly these two, their values increase strictly and
  stay below 100; there is exactly one notification of type \<open>success\<close>, with value 100;
  there is exactly one navigation. This holds for both revisions of the flow.
\<close>

theorem scenario_two_polls_then_success:
  assumes "fl = flow1 \<or> fl = flow2"
    and "jobName c = ''session-abc''"
    and "filePath c = Some f"
    and "verified (verifyJobParams w (buildJobParams c w f))"
    and "uploadResult w = Resolves u"
    and "startJob w = Resolves r"
    and "MedicalScribeJobStatus r = Some ''SUBMITTED''"
    and "getJob w = [Resolves (Some ''IN_PROGRESS''), Resolves (Some ''COMPLETED'')]"
  shows "outcome (submitJob fl c w) = Returned
       \<and> trace (submitJob fl c w)
           = [SetIsSubmitting True, SetFormError ''''] @ uploading fl c w f
             @ [StartMedicalScribeJob (buildJobParams c w f),
                UpdateProgressBar (submittedNotification fl ''session-abc''),
                Sleep 5000, GetHealthScribeJob ''session-abc'',
                UpdateProgressBar (pollingNotification fl ''session-abc'' (progressStart fl)),
                Sleep 5000, GetHealthScribeJob ''session-abc'',
                UpdateProgressBar (pollingNotification fl ''session-abc'' (progressStart fl + progressStep fl)),
                UpdateProgressBar (successNotification fl ''session-abc''),
                Sleep 500, Navigate ''/conversation/session-abc'', SetIsSubmitting False]
       \<and> filter isPolling (notifications (trace (submitJob fl c w)))
           = [pollingNotification fl ''session-abc'' (progressStart fl),
              pollingNotification fl ''session-abc'' (progressStart fl + progressStep fl)]
       \<and> nValue (pollingNotification fl ''session-abc'' (progressStart fl))
           < nValue (pollingNotification fl ''session-abc'' (progressStart fl + progressStep fl))
       \<and> nValue (pollingNotification fl ''session-abc'' (progressStart fl + progressStep fl)) < 100
       \<and> filter (ofType ''success'') (notifications (trace (submitJob fl c w)))
           = [successNotification fl ''session-abc'']
       \<and> nValue (successNotification fl ''session-abc'') = 100
       \<and> filter isNavigate (trace (submitJob fl c w)) = [Navigate ''/conversation/session-abc'']"
proof -
  let ?jn = "''session-abc''"
  let ?tail = "[StartMedicalScribeJob (buildJobParams c w f),
                UpdateProgressBar (submittedNotification fl ?jn),
                Sleep 5000, GetHealthScribeJob ?jn,
                UpdateProgressBar (pollingNotification fl ?jn (progressStart fl)),
                Sleep 5000, GetHealthScribeJob ?jn,
                UpdateProgressBar (pollingNotification fl ?jn (progressStart fl + progressStep fl)),
                UpdateProgressBar (successNotification fl ?jn),
                Sleep 500, Navigate ''/conversation/session-abc'']"
  have step: "nextProgress fl (progressStart fl) = progressStart fl + progressStep fl"
    and incr: "progressStart fl < progressStart fl + progressStep fl"
    and below: "progressStart fl + progressStep fl < 100"
    using assms(1) by (auto simp: nextProgress_def flow1_def flow2_def)
  have truthy: "truthy (MedicalScribeJobStatus r)"
    by (simp add: assms(7) truthy_def)
  have loop: "pollLoop fl ?jn (progressStart fl) (getJob w)
      = ([Sleep 5000, GetHealthScribeJob ?jn,
          UpdateProgressBar (pollingNotification fl ?jn (progressStart fl)),
          Sleep 5000, GetHealthScribeJob ?jn,
          UpdateProgressBar (pollingNotification fl ?jn (progressStart fl + progressStep fl)),
          UpdateProgressBar (successNotification fl ?jn),
          Sleep 500, Navigate ''/conversation/session-abc''], Break)"
    by (simp add: assms(8) step)
  have cp: "createAndPoll fl ?jn (buildJobParams c w f) w = (?tail, Returned)"
    by (simp add: createAndPoll_polling [OF assms(6) truthy] loop)
  have out: "outcome (submitJob fl c w) = Returned"
    and tr: "trace (submitJob fl c w)
      = [SetIsSubmitting True, SetFormError ''''] @ uploading fl c w f @ ?tail @ [SetIsSubmitting False]"
    by (simp_all add: submitJob_uploaded [OF assms(3-5)] assms(2) cp)
  have "filter isPolling (notifications (trace (submitJob fl c w)))
           = [pollingNotification fl ?jn (progressStart fl),
              pollingNotification fl ?jn (progressStart fl + progressStep fl)]"
    by (simp add: tr notifications_append uploading_no_polling isPolling_simps)
  moreover have "filter (ofType ''success'') (notifications (trace (submitJob fl c w)))
           = [successNotification fl ?jn]"
    by (simp add: tr notifications_append uploading_no_typed ofType_simps)
  moreover have "filter isNavigate (trace (submitJob fl c w)) = [Navigate ''/conversation/session-abc'']"
    by (simp add: tr uploading_no_nav)
  moreover have "nValue (pollingNotification fl ?jn (progressStart fl))
           < nValue (pollingNotification fl ?jn (progressStart fl + progressStep fl))"
    and "nValue (pollingNotification fl ?jn (progressStart fl + progressStep fl)) < 100"
    and "nValue (successNotification fl ?jn) = 100"
    using incr below by (simp_all add: pollingNotification_def successNotification_def)
  ultimately show ?thesis using out tr by simp
qed

theorem scenario_two_polls_then_success_witness:
  "jobName exampleComponent = ''session-abc''
   \<and> getJob exampleWorld = [Resolves (Some ''IN_PROGRESS''), Resolves (Some ''COMPLETED'')]
   \<and> outcome (submitJob flow1 exampleComponent exampleWorld) = Returned
   \<and> filter isPolling (notifications (trace (submitJob flow1 exampleComponent exampleWorld)))
       = [pollingNotification flow1 ''session-abc'' 10, pollingNotification flow1 ''session-abc'' 15]
   \<and> filter isNavigate (trace (submitJob flow1 exampleComponent exampleWorld))
       = [Navigate ''/conversation/session-abc'']"
proof -
  have fl: "flow1 = flow1 \<or> flow1 = flow2" by simp
  have v: "progressStart flow1 = 10" "progressStep flow1 = 5"
    by (simp_all add: flow1_def)
  note t = scenario_two_polls_then_success [OF fl example_facts(1,2,3,4,5,6,8)]
  have "outcome (submitJob flow1 exampleComponent exampleWorld) = Returned"
    using t by (rule conjunct1)
  moreover have "filter isPolling (notifications (trace (submitJob flow1 exampleComponent exampleWorld)))
       = [pollingNotification flow1 ''session-abc'' 10, pollingNotification flow1 ''session-abc'' 15]"
    using t [THEN conjunct2, THEN conjunct2, THEN conjunct1] by (simp only: v) simp
  moreover have "filter isNavigate (trace (submitJob flow1 exampleComponent exampleWorld))
       = [Navigate ''/conversation/session-abc'']"
    using t by blast
  ultimately show ?thesis
    using example_facts(1,8) by blast
qed

text \<open>
  C2. When the multipart upload rejects, \<open>submitJob\<close> throws the error of the upload
  again; the last notification it posts is one of type \<open>error\<close> whose additional text
  contains the name of the file and the message of the error; this is the only error
  notification of the run, and \<open>startMedicalScribeJob\<close> is not called.
\<close>

theorem upload_failure_stops_the_submission:
  assumes "filePath c = Some f"
    and "verified (verifyJobParams w (buildJobParams c w f))"
    and "uploadResult w = Rejects m"
  shows "outcome (submitJob fl c w) = Threw (Error m)
       \<and> last (notifications (trace (submitJob fl c w))) = uploadErrorNotification fl (jobName c) f m
       \<and> nType (uploadErrorNotification fl (jobName c) f m) = Some ''error''
       \<and> nAdditionalInfo (uploadErrorNotification fl (jobName c) f m)
           = Some (''Error uploading '' @ name f @ '': '' @ m)
       \<and> filter (ofType ''error'') (notifications (trace (submitJob fl c w)))
           = [uploadErrorNotification fl (jobName c) f m]
       \<and> filter isStartMedicalScribeJob (trace (submitJob fl c w)) = []"
proof -
  let ?e = "uploadErrorNotification fl (jobName c) f m"
  have run: "submitJob fl c w =
      finish c ([SetIsSubmitting True, SetFormError ''''] @ uploading fl c w f
                @ [UpdateProgressBar ?e, SetIsSubmitting False]) (Threw (Error m))"
    by (rule submitJob_upload_rejected [OF assms])
  have "outcome (submitJob fl c w) = Threw (Error m)"
    by (simp add: run)
  moreover have "last (notifications (trace (submitJob fl c w))) = ?e"
    by (simp add: run notifications_append)
  moreover have "nType ?e = Some ''error''"
    and "nAdditionalInfo ?e = Some (''Error uploading '' @ name f @ '': '' @ m)"
    by (simp_all add: uploadErrorNotification_def)
  moreover have "filter (ofType ''error'') (notifications (trace (submitJob fl c w))) = [?e]"
    by (simp add: run notifications_append uploading_no_typed ofType_simps)
  moreover have "filter isStartMedicalScribeJob (trace (submitJob fl c w)) = []"
    by (simp add: run uploading_no_start)
  ultimately show ?thesis by blast
qed

theorem upload_failure_stops_the_submission_witness:
  "uploadResult uploadFails = Rejects ''Network Error''
   \<and> outcome (submitJob flow1 exampleComponent uploadFails) = Threw (Error ''Network Error'')
   \<and> nAdditionalInfo (uploadErrorNotification flow1 (jobName exampleComponent) exampleFile ''Network Error'')
       = Some ''Error uploading visit.wav: Network Error''
   \<and> filter isStartMedicalScribeJob (trace (submitJob flow1 exampleComponent uploadFails)) = []"
proof -
  have n: "name exampleFile = ''visit.wav''" by (simp add: exampleFile_def)
  note t = upload_failure_stops_the_submission [OF example_facts(2) uploadFails_facts, of flow1]
  from t show ?thesis
    by (simp add: uploadFails_facts(2) n)
qed

text \<open>
  C3. Let the upload succeed and the job be created with a recognisable status, and let
  \<open>answers\<close> be an endless sequence of poll answers none of which is a rejection or the
  status \<open>COMPLETED\<close> (a terminal \<open>FAILED\<close> is allowed). Then after any number \<open>k\<close> of
  answers the run is still pending in the loop, with \<open>isSubmitting\<close> true: it has sent
  the next request (\<open>k + 1\<close> in all), it has not navigated and it has posted no
  notification of type \<open>error\<close>.
\<close>

theorem polling_never_ends_without_COMPLETED:
  assumes "filePath c = Some f"
    and "verified (verifyJobParams w (buildJobParams c w f))"
    and "uploadResult w = Resolves u"
    and "startJob w = Resolves r"
    and "truthy (MedicalScribeJobStatus r)"
    and "\<forall>i. \<exists>s. answers i = Resolves s \<and> s \<noteq> Some ''COMPLETED''"
  shows "outcome (submitJob fl c (w\<lparr>getJob := map answers [0..<k]\<rparr>)) = Pending
       \<and> isSubmitting (state (submitJob fl c (w\<lparr>getJob := map answers [0..<k]\<rparr>)))
       \<and> filter isNavigate (trace (submitJob fl c (w\<lparr>getJob := map answers [0..<k]\<rparr>))) = []
       \<and> filter (ofType ''error'')
           (notifications (trace (submitJob fl c (w\<lparr>getJob := map answers [0..<k]\<rparr>)))) = []
       \<and> length (filter isGetHealthScribeJob
           (trace (submitJob fl c (w\<lparr>getJob := map answers [0..<k]\<rparr>)))) = Suc k"
proof -
  let ?w = "w\<lparr>getJob := map answers [0..<k]\<rparr>"
  have a: "verified (verifyJobParams ?w (buildJobParams c ?w f))"
    using assms(2) by simp
  have b: "uploadResult ?w = Resolves u" and c: "startJob ?w = Resolves r"
    using assms(3,4) by simp_all
  have d: "\<forall>x \<in> set (getJob ?w). \<exists>s. x = Resolves s \<and> s \<noteq> Some ''COMPLETED''"
    using assms(6) by auto
  show ?thesis
    using polling_waits [OF assms(1) a b c assms(5) d, of fl] by simp
qed

theorem polling_never_ends_without_COMPLETED_witness:
  "(\<forall>i. \<exists>s. stillFailed i = Resolves s \<and> s \<noteq> Some ''COMPLETED'')
   \<and> outcome (submitJob flow1 exampleComponent (exampleWorld\<lparr>getJob := map stillFailed [0..<3]\<rparr>)) = Pending
   \<and> length (filter isGetHealthScribeJob
         (trace (submitJob flow1 exampleComponent (exampleWorld\<lparr>getJob := map stillFailed [0..<3]\<rparr>)))) = 4"
proof -
  have h: "\<forall>i. \<exists>s. stillFailed i = Resolves s \<and> s \<noteq> Some ''COMPLETED''"
    by (simp add: stillFailed_def)
  note t = polling_never_ends_without_COMPLETED [OF example_facts(2,3,4,5,7) h, of flow1 3]
  from t h show ?thesis by simp
qed

text \<open>
  C4. The claim: within one submission the values posted under one notification id never
  decrease before the terminal notification, and the first polling value is not below
  the 20 posted at job creation. The code does otherwise. In the submission that goes
  well, the values posted under the id of the job are, in order, 50 and 99 from the two
  upload callbacks, 20 at creation, then 10 and 15 from the two polling iterations and
  100 at the end, in the first revision; in the second revision, where every
  notification has the same id, they are 0, 50, 99, 20, 5, 8 and 100. The value falls
  from 99 to 20 at job creation and from 20 to the start value of the polling counter
  (10, resp. 5) at the first poll.
\<close>

theorem progress_values_regress:
  "map nValue (filter (\<lambda>n. nId n = ''New HealthScribe Job: session-abc'')
                 (notifications (trace (submitJob flow1 exampleComponent exampleWorld))))
     = [50, 99, 20, 10, 15, 100]
   \<and> map nValue (filter (\<lambda>n. nId n = ''Transcribing Audio'')
                 (notifications (trace (submitJob flow2 exampleComponent exampleWorld))))
     = [0, 50, 99, 20, 5, 8, 100]"
  by (simp add: example_defs submittedResponse_def run_defs notification_defs flow1_def flow2_def
      s3UploadCallback_sel example_progress_values)

text \<open>
  C5. The claim that every notification of a submission uses one id made from the job
  name fails: in the first revision a submission whose upload is rejected posts under
  three ids, the constant \<open>Transcribing Audio\<close> (initial notification), the id of the
  job (upload callback) and \<open>New Job: session-abc\<close> (failed upload).
\<close>

theorem notification_ids_counterexample:
  "map nId (notifications (trace (submitJob flow1 exampleComponent uploadFails)))
     = [''Transcribing Audio'', ''New HealthScribe Job: session-abc'', ''New Job: session-abc'']"
  by (simp add: example_defs submittedResponse_def run_defs notification_defs flow1_def
      s3UploadCallback_sel)

text \<open>
  C5, amended. In the second revision every notification of a submission has the one
  constant id \<open>Transcribing Audio\<close>, which does not contain the job name. In the first
  revision every notification other than the initial one and the one of a failed upload
  (that is: upload progress, creation, polling, success, unconfirmed creation and the
  error of creation or polling) has the id \<open>New HealthScribe Job: \<close> followed by the
  job name.
\<close>

theorem notification_ids_of_a_submission:
  "(\<forall>n \<in> set (notifications (trace (submitJob flow2 c w))). nId n = ''Transcribing Audio'')
   \<and> (\<forall>n \<in> set (notifications (trace (submitJob flow1 c w))).
         n \<noteq> initialNotification \<and> (\<forall>f m. n \<noteq> uploadErrorNotification flow1 (jobName c) f m)
         \<longrightarrow> nId n = ''New HealthScribe Job: '' @ jobName c)"
proof (intro conjI ballI impI)
  fix n assume "n \<in> set (notifications (trace (submitJob flow2 c w)))"
  from submitJob_notification_cases [OF this]
  show "nId n = ''Transcribing Audio''"
    by (auto simp: flow2_def initialNotification_def uploadErrorNotification_def)
next
  fix n assume "n \<in> set (notifications (trace (submitJob flow1 c w)))"
    and "n \<noteq> initialNotification \<and> (\<forall>f m. n \<noteq> uploadErrorNotification flow1 (jobName c) f m)"
  with submitJob_notification_cases [of n flow1 c w]
  show "nId n = ''New HealthScribe Job: '' @ jobName c"
    by (auto simp: flow1_def)
qed

theorem notification_ids_of_a_submission_witness:
  "successNotification flow2 ''session-abc''
     \<in> set (notifications (trace (submitJob flow2 exampleComponent exampleWorld)))
   \<and> nId (successNotification flow2 ''session-abc'') = ''Transcribing Audio''
   \<and> successNotification flow1 ''session-abc''
     \<in> set (notifications (trace (submitJob flow1 exampleComponent exampleWorld)))
   \<and> successNotification flow1 ''session-abc'' \<noteq> initialNotification
   \<and> (\<forall>f m. successNotification flow1 ''session-abc''
          \<noteq> uploadErrorNotification flow1 (jobName exampleComponent) f m)
   \<and> nId (successNotification flow1 ''session-abc'') = ''New HealthScribe Job: session-abc''"
proof -
  have a: "successNotification fl ''session-abc''
     \<in> set (notifications (trace (submitJob fl exampleComponent exampleWorld)))" for fl
    by (simp add: example_run(2) notifications_append)
  have c: "successNotification flow1 ''session-abc'' \<noteq> initialNotification"
    and d: "\<forall>f m. successNotification flow1 ''session-abc''
          \<noteq> uploadErrorNotification flow1 (jobName exampleComponent) f m"
    by (simp_all add: successNotification_def initialNotification_def uploadErrorNotification_def)
  note t = notification_ids_of_a_submission [of exampleComponent exampleWorld]
  have p2: "nId (successNotification flow2 ''session-abc'') = ''Transcribing Audio''"
    by (rule bspec [OF t [THEN conjunct1] a])
  have "nId (successNotification flow1 ''session-abc'')
      = ''New HealthScribe Job: '' @ jobName exampleComponent"
    by (rule t [THEN conjunct2, THEN bspec, OF a, THEN mp, OF conjI [OF c d]])
  then have p1: "nId (successNotification flow1 ''session-abc'') = ''New HealthScribe Job: session-abc''"
    by (simp add: example_facts(1))
  from a [of flow1] a [of flow2] c d p1 p2 show ?thesis by blast
qed




text \<open>
  C7. In a channel identification submission (the audio selection is not speaker
  partitioning) the job parameters hold exactly two channel definitions: channel 0 with
  the chosen role and channel 1 with the other one. If channel 0 is \<open>CLINICIAN\<close>,
  channel 1 is \<open>PATIENT\<close>; if channel 0 is \<open>PATIENT\<close>, channel 1 is \<open>CLINICIAN\<close>; the
  two roles are never equal.
\<close>

theorem channel_roles_are_complementary:
  assumes "audioSelection c \<noteq> ''speakerPartitioning''"
  shows "\<exists>r0 r1. audio (buildJobParams c w f) = ChannelDefinitions [(0, r0), (1, r1)] True
           \<and> r0 = channel1 (audioDetails c)
           \<and> (r0 = ''CLINICIAN'' \<longrightarrow> r1 = ''PATIENT'')
           \<and> (r0 = ''PATIENT'' \<longrightarrow> r1 = ''CLINICIAN'')
           \<and> r0 \<noteq> r1"
  using assms by (simp add: buildJobParams_def buildAudioParams_def)

theorem channel_roles_are_complementary_witness:
  "audioSelection channelComponent \<noteq> ''speakerPartitioning''
   \<and> audio (buildJobParams channelComponent exampleWorld exampleFile)
       = ChannelDefinitions [(0, ''CLINICIAN''), (1, ''PATIENT'')] True"
proof -
  have h: "audioSelection channelComponent \<noteq> ''speakerPartitioning''"
    by (simp add: channelComponent_def example_defs)
  have c1: "channel1 (audioDetails channelComponent) = ''CLINICIAN''"
    by (simp add: channelComponent_def example_defs)
  from channel_roles_are_complementary [OF h, of exampleWorld exampleFile] c1 h
  show ?thesis by auto
qed

text \<open>
  C8. When the upload succeeds and the answer to the job creation has no truthy job
  status, \<open>submitJob\<close> returns normally; it posts exactly one notification of type
  \<open>info\<close>, whose additional text repeats the answer; it never calls
  \<open>getHealthScribeJob\<close>, posts no notification of type \<open>error\<close> and does not navigate.
\<close>

theorem unrecognised_creation_answer_ends_unconfirmed:
  assumes "filePath c = Some f"
    and "verified (verifyJobParams w (buildJobParams c w f))"
    and "uploadResult w = Resolves u"
    and "startJob w = Resolves r"
    and "\<not> truthy (MedicalScribeJobStatus r)"
  shows "outcome (submitJob fl c w) = Returned
       \<and> filter (ofType ''info'') (notifications (trace (submitJob fl c w)))
           = [unconfirmedNotification fl (jobName c) (dataJson r)]
       \<and> nType (unconfirmedNotification fl (jobName c) (dataJson r)) = Some ''info''
       \<and> nAdditionalInfo (unconfirmedNotification fl (jobName c) (dataJson r))
           = Some (''Response from HealthScribe: '' @ dataJson r)
       \<and> filter isGetHealthScribeJob (trace (submitJob fl c w)) = []
       \<and> filter (ofType ''error'') (notifications (trace (submitJob fl c w))) = []
       \<and> filter isNavigate (trace (submitJob fl c w)) = []"
proof -
  let ?n = "unconfirmedNotification fl (jobName c) (dataJson r)"
  let ?jp = "buildJobParams c w f"
  have cp: "createAndPoll fl (jobName c) ?jp w = ([StartMedicalScribeJob ?jp, UpdateProgressBar ?n], Returned)"
    by (rule createAndPoll_unconfirmed [OF assms(4,5)])
  have tr: "trace (submitJob fl c w) = [SetIsSubmitting True, SetFormError ''''] @ uploading fl c w f
      @ [StartMedicalScribeJob ?jp, UpdateProgressBar ?n, SetIsSubmitting False]"
    and out: "outcome (submitJob fl c w) = Returned"
    by (simp_all add: submitJob_uploaded [OF assms(1-3)] cp)
  have typed: "nType ?n = Some ''info''"
    and info: "nAdditionalInfo ?n = Some (''Response from HealthScribe: '' @ dataJson r)"
    by (simp_all add: unconfirmedNotification_def)
  have "filter (ofType ''info'') (notifications (trace (submitJob fl c w))) = [?n]"
    by (simp add: tr notifications_append uploading_no_typed ofType_simps)
  moreover have "filter isGetHealthScribeJob (trace (submitJob fl c w)) = []"
    by (simp add: tr uploading_no_get)
  moreover have "filter (ofType ''error'') (notifications (trace (submitJob fl c w))) = []"
    by (simp add: tr notifications_append uploading_no_typed ofType_simps)
  moreover have "filter isNavigate (trace (submitJob fl c w)) = []"
    by (simp add: tr uploading_no_nav)
  ultimately show ?thesis using out typed info by blast
qed

theorem unrecognised_creation_answer_ends_unconfirmed_witness:
  "startJob unconfirmed = Resolves unrecognisedResponse
   \<and> \<not> truthy (MedicalScribeJobStatus unrecognisedResponse)
   \<and> outcome (submitJob flow1 exampleComponent unconfirmed) = Returned
   \<and> nAdditionalInfo (unconfirmedNotification flow1 (jobName exampleComponent) (dataJson unrecognisedResponse))
       = Some ''Response from HealthScribe: {}''
   \<and> filter isGetHealthScribeJob (trace (submitJob flow1 exampleComponent unconfirmed)) = []"
proof -
  have d: "dataJson unrecognisedResponse = ''{}''" by (simp add: unrecognisedResponse_def)
  note t = unrecognised_creation_answer_ends_unconfirmed [OF example_facts(2) unconfirmed_facts, of flow1]
  from t unconfirmed_facts(3,4) show ?thesis
    by (simp add: d)
qed

text \<open>
  C9. The claim that a resubmission after a failed attempt uses a fresh job name fails:
  after an attempt for \<open>session-abc\<close> whose job creation is rejected, the resubmission
  from the state that the attempt leaves behind creates the job \<open>session-abc\<close> again.
\<close>

theorem resubmission_counterexample:
  "outcome (submitJob flow1 exampleComponent creationFails) = Threw (Error ''Network Error'')
   \<and> startedJobNames (trace (submitJob flow1 exampleComponent creationFails)) = [''session-abc'']
   \<and> startedJobNames
        (trace (submitJob flow1 (state (submitJob flow1 exampleComponent creationFails)) exampleWorld))
       = [''session-abc'']"
  by (simp add: example_defs submittedResponse_def run_defs notification_defs flow1_def)

text \<open>
  C9, amended. \<open>submitJob\<close> never changes the job name of the component, however it
  ends: every job it creates carries the job name the component had before, and so does
  every job created by a later submission from the state it leaves behind. (The name is
  generated once, when the component is mounted; only the user's editing changes it.)
\<close>

theorem resubmission_keeps_the_job_name:
  "jobName (state (submitJob fl c w)) = jobName c
   \<and> (\<forall>jn \<in> set (startedJobNames (trace (submitJob fl c w))). jn = jobName c)
   \<and> (\<forall>jn \<in> set (startedJobNames (trace (submitJob fl' (state (submitJob fl c w)) w'))). jn = jobName c)"
  using startedJobNames_submitJob [of fl c w]
    startedJobNames_submitJob [of fl' "state (submitJob fl c w)" w']
  by (auto simp: jobName_submitJob)

theorem resubmission_keeps_the_job_name_witness:
  "''session-abc'' \<in> set (startedJobNames (trace (submitJob flow1 exampleComponent creationFails)))
   \<and> ''session-abc'' \<in> set (startedJobNames
        (trace (submitJob flow1 (state (submitJob flow1 exampleComponent creationFails)) exampleWorld)))
   \<and> jobName (state (submitJob flow1 exampleComponent creationFails)) = ''session-abc''"
proof -
  let ?c = "state (submitJob flow1 exampleComponent creationFails)"
  have c: "filePath ?c = Some exampleFile" "jobName ?c = ''session-abc''"
    by (simp_all add: creationFails_run(2) jobName_submitJob example_facts(1))
  have a: "startedJobNames (trace (submitJob flow1 exampleComponent creationFails)) = [''session-abc'']"
    by (simp add: submitJob_uploaded [OF example_facts(2) creationFails_facts(1,2)]
        startedJobNames_append startedJobNames_uploading startedJobNames_createAndPoll
        buildJobParams_name example_facts(1))
  have b: "startedJobNames (trace (submitJob flow1 ?c exampleWorld)) = [''session-abc'']"
    by (simp add: submitJob_uploaded [OF c(1) example_facts(3,4)]
        startedJobNames_append startedJobNames_uploading startedJobNames_createAndPoll
        buildJobParams_name c(2))
  from resubmission_keeps_the_job_name [of flow1 exampleComponent creationFails flow1 exampleWorld]
  show ?thesis by (simp add: a b example_facts(1))
qed

text \<open>
  C10. The claim that \<open>isSubmitting\<close> remains true only while the workflow is still
  running fails: submitted from the freshly mounted component, in which no file is
  selected, \<open>submitJob\<close> ends with the TypeError of reading the name of the file, after
  \<open>setIsSubmitting(true)\<close> and before any reset, and \<open>isSubmitting\<close> stays true.
\<close>

theorem isSubmitting_stays_true_without_file:
  "outcome (submitJob flow1 mountedComponent exampleWorld) = Threw TypeError
   \<and> trace (submitJob flow1 mountedComponent exampleWorld) = [SetIsSubmitting True, SetFormError '''']
   \<and> isSubmitting (state (submitJob flow1 mountedComponent exampleWorld))"
  by (simp add: submitJob_def mountedComponent_def NewConversation_def)

text \<open>
  C10, amended. The state after \<open>submitJob\<close> is the state before with the setter calls
  of the run applied. Whenever \<open>submitJob\<close> has returned (normally or after a failed
  validation) or has thrown the error of the upload, of the job creation or of a poll
  again, its first event is \<open>setIsSubmitting(true)\<close>, its last event is
  \<open>setIsSubmitting(false)\<close>, and \<open>isSubmitting\<close> is false. \<open>isSubmitting\<close> remains true,
  with no \<open>setIsSubmitting(false)\<close> in the trace, while the run is pending in the
  polling loop, and also when \<open>submitJob\<close> ends with the TypeError, which happens
  exactly when no file is selected (the submit control is disabled in that state).
\<close>

theorem isSubmitting_after_submitJob:
  "state (submitJob fl c w) = applySetters (trace (submitJob fl c w)) c
   \<and> (outcome (submitJob fl c w) = Threw TypeError \<longleftrightarrow> filePath c = None)
   \<and> (outcome (submitJob fl c w) = Returned \<or> (\<exists>m. outcome (submitJob fl c w) = Threw (Error m))
        \<longrightarrow> (\<exists>evs. trace (submitJob fl c w) = SetIsSubmitting True # evs @ [SetIsSubmitting False])
          \<and> \<not> isSubmitting (state (submitJob fl c w)))
   \<and> (outcome (submitJob fl c w) = Pending \<or> outcome (submitJob fl c w) = Threw TypeError
        \<longrightarrow> (\<exists>evs. trace (submitJob fl c w) = SetIsSubmitting True # evs)
          \<and> SetIsSubmitting False \<notin> set (trace (submitJob fl c w))
          \<and> isSubmitting (state (submitJob fl c w)))"
proof -
  let ?r = "submitJob fl c w"
  have st: "state ?r = applySetters (trace ?r) c"
    by (simp add: submitJob_def Let_def
        split: option.splits promise.splits prod.splits outcome.splits)
  have ended: "(\<exists>evs. trace ?r = SetIsSubmitting True # evs @ [SetIsSubmitting False])
      \<and> \<not> isSubmitting (applySetters (trace ?r) c)"
    if "trace ?r = SetIsSubmitting True # evs @ [SetIsSubmitting False]" for evs
    using that by (auto simp: applySetters_append)
  have running: "(\<exists>evs. trace ?r = SetIsSubmitting True # evs)
      \<and> SetIsSubmitting False \<notin> set (trace ?r) \<and> isSubmitting (applySetters (trace ?r) c)"
    if "trace ?r = [SetIsSubmitting True, SetFormError ''''] @ evs"
      and "SetIsSubmitting False \<notin> set evs" and "applySetters evs c' = c'"
      and "c' = c\<lparr>isSubmitting := True, formError := ''''\<rparr>" for evs c'
    using that by (simp add: applySetters_append)
  show ?thesis
  proof (cases "filePath c")
    case None
    have out: "outcome ?r = Threw TypeError"
      and tr: "trace ?r = [SetIsSubmitting True, SetFormError ''''] @ []"
      using None by (simp_all add: submitJob_def)
    from running [OF tr] out None st show ?thesis by simp
  next
    case (Some f)
    show ?thesis
    proof (cases "verified (verifyJobParams w (buildJobParams c w f))")
      case False
      have out: "outcome ?r = Returned"
        and tr: "trace ?r = SetIsSubmitting True
            # [SetFormError '''', SetFormError (message (verifyJobParams w (buildJobParams c w f)))]
            @ [SetIsSubmitting False]"
        using Some False by (simp_all add: submitJob_def Let_def)
      from ended [OF tr] out Some st show ?thesis by simp
    next
      case True
      show ?thesis
      proof (cases "uploadResult w")
        case (Rejects m)
        have out: "outcome ?r = Threw (Error m)"
          and tr: "trace ?r = SetIsSubmitting True
              # (SetFormError '''' # uploading fl c w f
                 @ [UpdateProgressBar (uploadErrorNotification fl (jobName c) f m)])
              @ [SetIsSubmitting False]"
          by (simp_all add: submitJob_upload_rejected [OF Some True Rejects])
        from ended [OF tr] out Some st show ?thesis by simp
      next
        case (Resolves u)
        let ?cp = "createAndPoll fl (jobName c) (buildJobParams c w f) w"
        note run = submitJob_uploaded [OF Some True Resolves, of fl]
        show ?thesis
        proof (cases "snd ?cp")
          case Returned
          have out: "outcome ?r = Returned"
            and tr: "trace ?r = SetIsSubmitting True
                # (SetFormError '''' # uploading fl c w f @ fst ?cp) @ [SetIsSubmitting False]"
            by (simp_all add: run Returned)
          from ended [OF tr] out Some st show ?thesis by simp
        next
          case (Threw e)
          from createAndPoll_threw_resets [OF Threw]
          obtain evs where evs: "fst ?cp = evs @ [SetIsSubmitting False]" ..
          from Threw createAndPoll_no_TypeError [of fl "jobName c" "buildJobParams c w f" w]
          obtain m where e: "e = Error m" by (cases e) simp_all
          have out: "outcome ?r = Threw (Error m)"
            and tr: "trace ?r = SetIsSubmitting True
                # (SetFormError '''' # uploading fl c w f @ evs) @ [SetIsSubmitting False]"
            by (simp_all add: run Threw e evs)
          from ended [OF tr] out Some st show ?thesis by simp
        next
          case Pending
          have out: "outcome ?r = Pending"
            and tr: "trace ?r = [SetIsSubmitting True, SetFormError ''''] @ (uploading fl c w f @ fst ?cp)"
            by (simp_all add: run Pending)
          have quiet: "SetIsSubmitting False \<notin> set (uploading fl c w f @ fst ?cp)"
            by (simp add: uploading_no_setter createAndPoll_pending_no_setter [OF Pending])
          have same: "applySetters (uploading fl c w f @ fst ?cp) c' = c'" for c'
            by (simp add: applySetters_append applySetters_uploading createAndPoll_setters Pending)
          from running [OF tr quiet same refl] out Some st show ?thesis by simp
        qed
      qed
    qed
  qed
qed

theorem isSubmitting_after_submitJob_witness:
  "outcome (submitJob flow1 exampleComponent exampleWorld) = Returned
   \<and> \<not> isSubmitting (state (submitJob flow1 exampleComponent exampleWorld))
   \<and> outcome (submitJob flow1 exampleComponent creationFails) = Threw (Error ''Network Error'')
   \<and> \<not> isSubmitting (state (submitJob flow1 exampleComponent creationFails))
   \<and> outcome (submitJob flow1 exampleComponent stillRunning) = Pending
   \<and> isSubmitting (state (submitJob flow1 exampleComponent stillRunning))
   \<and> outcome (submitJob flow1 mountedComponent exampleWorld) = Threw TypeError
   \<and> isSubmitting (state (submitJob flow1 mountedComponent exampleWorld))"
proof -
  note a = isSubmitting_after_submitJob [of flow1 exampleComponent exampleWorld]
  note b = isSubmitting_after_submitJob [of flow1 exampleComponent creationFails]
  note c = isSubmitting_after_submitJob [of flow1 exampleComponent stillRunning]
  note d = isSubmitting_after_submitJob [of flow1 mountedComponent exampleWorld]
  have "\<not> isSubmitting (state (submitJob flow1 exampleComponent exampleWorld))"
    using a example_run(1) [of flow1] by blast
  moreover have "\<not> isSubmitting (state (submitJob flow1 exampleComponent creationFails))"
    using b creationFails_run(1) [of flow1] by blast
  moreover have "isSubmitting (state (submitJob flow1 exampleComponent stillRunning))"
    using c stillRunning_run [of flow1] by blast
  moreover have "isSubmitting (state (submitJob flow1 mountedComponent exampleWorld))"
    using d mounted_run [of flow1 exampleWorld] by blast
  ultimately show ?thesis
    using example_run(1) [of flow1] creationFails_run(1) [of flow1] stillRunning_run [of flow1]
      mounted_run [of flow1 exampleWorld]
    by blast
qed

end
